theory Spec2Isabelle
  imports Main "HOL-Library.Sublist" "HOL-Library.Word"
begin

section \<open>Data model\<close>

text \<open>
  A shallow embedding of the L2 chat client: the persistence layer (storage/storage.go),
  the lexicon tool (tools, AddLexiconEntry) and the streaming session engine
  (ui/components.go). Go strings are byte sequences and are modelled as \<open>string\<close>;
  a Go \<open>error\<close> is modelled by its message.
\<close>

type_synonym error = string
type_synonym bytes = string

text \<open>What stops a run of the program: \<open>log.Fatal\<close>, or a runtime panic.\<close>

datatype failure = Fatal error | Panic string

text \<open>
  Modelled from the spec: the message type \<open>schema.Message\<close> of the backend library
  is not part of the sources. The spec describes a Turn as a role, a content text and
  an ordered sequence of tool calls, each a name with arguments. A role is a string, as
  the code compares it with string constants. History entries are taken to be non-nil.
\<close>

record ToolCall =
  Function_Name :: string
  Function_Arguments :: string

record Message =
  Role :: string
  Content :: string
  ToolCalls :: "ToolCall list"

definition UserMessage :: "string \<Rightarrow> Message" where
  "UserMessage c = \<lparr>Role = ''user'', Content = c, ToolCalls = []\<rparr>"

definition AssistantMessage :: "string \<Rightarrow> ToolCall list \<Rightarrow> Message" where
  "AssistantMessage c tcs = \<lparr>Role = ''assistant'', Content = c, ToolCalls = tcs\<rparr>"

definition SystemMessage :: "string \<Rightarrow> Message" where
  "SystemMessage c = \<lparr>Role = ''system'', Content = c, ToolCalls = []\<rparr>"

text \<open>\<open>storage.Stats\<close>: Go's \<open>int\<close> is a 64-bit two's-complement integer.\<close>

record Stats =
  TotalTokens :: "64 word"

record LexiconEntry =
  Word :: string
  Definition :: string
  PartOfSpeech :: string
  Etymology :: string

record LexiconResult =
  Success :: bool
  Message :: string
  Entries :: "LexiconEntry list"

section \<open>The operating system, as storage.go uses it\<close>

text \<open>
  A path is its list of components. \<open>Abs\<close> paths start at the root, \<open>Rel\<close> paths at
  the working directory. The file system is a set of directories and a map from paths
  to file contents; permissions and device errors are not modelled.
\<close>

type_synonym path = "string list"

datatype fpath = Abs path | Rel path

record OS =
  home :: "path option"
  cwd :: path
  dirs :: "path set"
  files :: "path \<rightharpoonup> bytes"

definition resolve :: "OS \<Rightarrow> fpath \<Rightarrow> path" where
  "resolve os p = (case p of Abs q \<Rightarrow> q | Rel q \<Rightarrow> cwd os @ q)"

definition os_UserHomeDir :: "OS \<Rightarrow> error + path" where
  "os_UserHomeDir os = (case home os of None \<Rightarrow> Inl ''$HOME is not defined'' | Some h \<Rightarrow> Inr h)"

definition filepath_Dir :: "fpath \<Rightarrow> fpath" where
  "filepath_Dir p = (case p of Abs q \<Rightarrow> Abs (butlast q) | Rel q \<Rightarrow> Rel (butlast q))"

definition filepath_Join :: "fpath \<Rightarrow> path \<Rightarrow> fpath" where
  "filepath_Join p name = (case p of Abs q \<Rightarrow> Abs (q @ name) | Rel q \<Rightarrow> Rel (q @ name))"

text \<open>
  \<open>os.MkdirAll\<close> creates the directory and every missing ancestor; it fails, creating
  nothing, when a regular file is in the way.
\<close>

definition os_MkdirAll :: "fpath \<Rightarrow> OS \<Rightarrow> error option \<times> OS" where
  "os_MkdirAll p os =
     (let a = resolve os p in
      if list_ex (\<lambda>q. files os q \<noteq> None) (prefixes a)
      then (Some ''not a directory'', os)
      else (None, os\<lparr>dirs := dirs os \<union> set (prefixes a)\<rparr>))"

text \<open>
  \<open>os.WriteFile\<close> creates or truncates the file; it does not create directories, so it
  fails when the parent directory does not exist.
\<close>

definition os_WriteFile :: "fpath \<Rightarrow> bytes \<Rightarrow> OS \<Rightarrow> error option \<times> OS" where
  "os_WriteFile p d os =
     (let a = resolve os p in
      if a \<in> dirs os then (Some ''is a directory'', os)
      else if a = [] \<or> butlast a \<notin> dirs os then (Some ''no such file or directory'', os)
      else (None, os\<lparr>files := (files os)(a \<mapsto> d)\<rparr>))"

definition os_ReadFile :: "fpath \<Rightarrow> OS \<Rightarrow> error + bytes" where
  "os_ReadFile p os =
     (let a = resolve os p in
      (case files os a of
         Some d \<Rightarrow> Inr d
       | None \<Rightarrow> if a \<in> dirs os then Inl ''is a directory'' else Inl ''no such file or directory''))"

text \<open>\<open>os.Stat\<close>, reduced to whether it returns a nil error.\<close>

definition os_Stat :: "fpath \<Rightarrow> OS \<Rightarrow> bool" where
  "os_Stat p os = (let a = resolve os p in a \<in> dirs os \<or> files os a \<noteq> None)"

section \<open>JSON, as a parameter\<close>

text \<open>
  \<open>encoding/json\<close> is a library of the Go distribution and is not part of the sources.
  The functions that use it take the codec as a parameter. \<open>Unmarshal_entries\<close> gives the
  value of the target slice after the call together with the error, since the caller in
  AddLexiconEntry goes on with the slice when decoding fails.
\<close>

record codec =
  Marshal_history :: "Message list \<Rightarrow> error + bytes"
  Unmarshal_history :: "bytes \<Rightarrow> error + Message list"
  Marshal_stats :: "Stats \<Rightarrow> error + bytes"
  Unmarshal_stats :: "bytes \<Rightarrow> error + Stats"
  MarshalIndent_entries :: "LexiconEntry list \<Rightarrow> error + bytes"
  Unmarshal_entries :: "bytes \<Rightarrow> LexiconEntry list \<times> error option"

section \<open>storage/storage.go\<close>

definition conversationFilePath :: path where
  "conversationFilePath = [''conversations'', ''conversation.json'']"

definition systemFilePath :: path where
  "systemFilePath = [''system.md'']"

definition statsFilePath :: path where
  "statsFilePath = [''stats.json'']"

definition rootPath :: string where
  "rootPath = ''l2''"

definition dataPath :: path where
  "dataPath = [''data'']"

text \<open>The text of a path, as \<open>%s\<close> prints it.\<close>

fun path_string :: "path \<Rightarrow> string" where
  "path_string [] = []"
| "path_string [c] = c"
| "path_string (c # cs) = c @ ''/'' @ path_string cs"

definition SystemFile :: int where "SystemFile = 0"
definition ConversationFile :: int where "ConversationFile = 1"
definition StatsFile :: int where "StatsFile = 2"
definition DataFile :: int where "DataFile = 3"

text \<open>A Go map gives the zero value, the empty string, at a missing key.\<close>

definition pathMap :: "int \<Rightarrow> path" where
  "pathMap f =
     (if f = 0 then systemFilePath
      else if f = 1 then conversationFilePath
      else if f = 2 then statsFilePath
      else if f = 3 then dataPath
      else [])"

definition GetPath :: "int \<Rightarrow> OS \<Rightarrow> error + fpath" where
  "GetPath f os =
     (case os_UserHomeDir os of
        Inl err \<Rightarrow> Inl err
      | Inr h \<Rightarrow> Inr (Abs (h @ [rootPath] @ pathMap f)))"

text \<open>The name of a data file is a relative path, given by its components.\<close>

definition WriteDataFile :: "path \<Rightarrow> bytes \<Rightarrow> OS \<Rightarrow> error option \<times> OS" where
  "WriteDataFile name d os =
     (case GetPath DataFile os of
        Inl err \<Rightarrow> (Some err, os)
      | Inr Path \<Rightarrow>
          let os1 = snd (os_MkdirAll (filepath_Dir Path) os) in
          os_WriteFile (filepath_Join Path name) d os1)"

definition ReadDataFile :: "path \<Rightarrow> OS \<Rightarrow> error + bytes" where
  "ReadDataFile name os =
     (case GetPath DataFile os of
        Inl err \<Rightarrow> Inl err
      | Inr Path \<Rightarrow> os_ReadFile (filepath_Join Path name) os)"

definition WriteFile :: "int \<Rightarrow> bytes \<Rightarrow> OS \<Rightarrow> error option \<times> OS" where
  "WriteFile f d os =
     (case GetPath f os of
        Inl err \<Rightarrow> (Some err, os)
      | Inr p \<Rightarrow> os_WriteFile p d os)"

definition CheckFile :: "int \<Rightarrow> OS \<Rightarrow> error + bool" where
  "CheckFile f os =
     (case GetPath f os of
        Inl err \<Rightarrow> Inl err
      | Inr p \<Rightarrow> Inr (os_Stat p os))"

definition ReadFile :: "int \<Rightarrow> OS \<Rightarrow> error + bytes" where
  "ReadFile f os =
     (case CheckFile f os of
        Inl err \<Rightarrow> Inl err
      | Inr exists \<Rightarrow>
          if \<not> exists then Inl (''file does not exist: '' @ path_string (pathMap f))
          else (case GetPath f os of
                  Inl err \<Rightarrow> Inl err
                | Inr p \<Rightarrow> os_ReadFile p os))"

definition ReadConversation :: "codec \<Rightarrow> OS \<Rightarrow> error + Message list" where
  "ReadConversation J os =
     (case ReadFile ConversationFile os of
        Inl err \<Rightarrow> Inl err
      | Inr d \<Rightarrow> Unmarshal_history J d)"

definition WriteConversation :: "codec \<Rightarrow> Message list \<Rightarrow> OS \<Rightarrow> error option \<times> OS" where
  "WriteConversation J history os =
     (case CheckFile ConversationFile os of
        Inl err \<Rightarrow> (Some err, os)
      | Inr exists \<Rightarrow>
          let os1 = (if \<not> exists
                     then snd (os_MkdirAll (filepath_Dir (Rel (pathMap ConversationFile))) os)
                     else os) in
          (case Marshal_history J history of
             Inl err \<Rightarrow> (Some err, os1)
           | Inr d \<Rightarrow> WriteFile ConversationFile d os1))"

definition ReadStats :: "codec \<Rightarrow> OS \<Rightarrow> Stats \<times> error option" where
  "ReadStats J os =
     (case ReadFile StatsFile os of
        Inl err \<Rightarrow> (\<lparr>TotalTokens = 0\<rparr>, Some err)
      | Inr d \<Rightarrow>
          (case Unmarshal_stats J d of
             Inl err \<Rightarrow> (\<lparr>TotalTokens = 0\<rparr>, Some err)
           | Inr stats \<Rightarrow> (stats, None)))"

definition WriteStats :: "codec \<Rightarrow> Stats \<Rightarrow> OS \<Rightarrow> error option \<times> OS" where
  "WriteStats J stats os =
     (case CheckFile StatsFile os of
        Inl err \<Rightarrow> (Some err, os)
      | Inr exists \<Rightarrow>
          let os1 = (if \<not> exists
                     then snd (os_MkdirAll (filepath_Dir (Rel (pathMap StatsFile))) os)
                     else os) in
          (case Marshal_stats J stats of
             Inl err \<Rightarrow> (Some err, os1)
           | Inr d \<Rightarrow> WriteFile StatsFile d os1))"

section \<open>The lexicon tool\<close>



section \<open>Library functions used by ui/components.go\<close>

text \<open>
  \<open>strings.Contains\<close> and \<open>strings.ReplaceAll\<close> on byte strings. ReplaceAll replaces
  the non-overlapping occurrences from left to right; for an empty pattern it inserts
  the replacement around every byte (Go does so around every UTF-8 sequence).
\<close>

definition strings_Contains :: "string \<Rightarrow> string \<Rightarrow> bool" where
  "strings_Contains s substr = sublist substr s"

function strings_ReplaceAll :: "string \<Rightarrow> string \<Rightarrow> string \<Rightarrow> string" where
  "strings_ReplaceAll s old new =
     (if old = [] then new @ concat (map (\<lambda>c. c # new) s)
      else if s = [] then []
      else if prefix old s then new @ strings_ReplaceAll (drop (length old) s) old new
      else hd s # strings_ReplaceAll (tl s) old new)"
  by pat_completeness auto
termination
  by (relation "measure (\<lambda>(s, old, new). length s)") auto

declare strings_ReplaceAll.simps [simp del]

text \<open>\<open>%d\<close> of \<open>fmt.Sprintf\<close>.\<close>

function itoa_nat :: "nat \<Rightarrow> string" where
  "itoa_nat n =
     (if n < 10 then [''0123456789'' ! n]
      else itoa_nat (n div 10) @ [''0123456789'' ! (n mod 10)])"
  by pat_completeness auto
termination
  by (relation "measure (\<lambda>n. n)") auto

declare itoa_nat.simps [simp del]

definition itoa :: "int \<Rightarrow> string" where
  "itoa i = (if i < 0 then ''-'' @ itoa_nat (nat (- i)) else itoa_nat (nat i))"

text \<open>
  Time: a \<open>time.Time\<close> is the number of nanoseconds since the zero time, so that
  \<open>time.Time{}\<close> is 0; a \<open>time.Duration\<close> is a number of nanoseconds in 64 bits, and
  \<open>Sub\<close> saturates at its bounds.
\<close>

type_synonym Time = int
type_synonym Duration = int

definition Millisecond :: Duration where
  "Millisecond = 1000000"

definition maxDuration :: Duration where
  "maxDuration = 2 ^ 63 - 1"

definition minDuration :: Duration where
  "minDuration = - (2 ^ 63)"

definition time_Sub :: "Time \<Rightarrow> Time \<Rightarrow> Duration" where
  "time_Sub t u =
     (if t - u > maxDuration then maxDuration
      else if t - u < minDuration then minDuration
      else t - u)"

text \<open>\<open>time.Since(t)\<close> when the clock reads \<open>now\<close>.\<close>

definition time_Since :: "Time \<Rightarrow> Time \<Rightarrow> Duration" where
  "time_Since now t = time_Sub now t"

section \<open>The backend\<close>

text \<open>
  The backend is the parameter \<open>llm\<close>. \<open>Invoke\<close> answers or fails (also by its timeout
  of ten seconds). \<open>Stream\<close> fails or gives a reader: the message batches that the
  successive calls of \<open>Recv\<close> return, and how the stream ends, \<open>None\<close> for \<open>io.EOF\<close> and
  \<open>Some err\<close> for another error.
\<close>

type_synonym StreamReader = "Message list list \<times> error option"

record LLM =
  Invoke :: "Message list \<Rightarrow> error + Message list"
  Stream :: "Message list \<Rightarrow> error + StreamReader"

section \<open>ui/components.go: the model\<close>

text \<open>
  A channel of tokens with capacity 100. \<open>cid\<close> tells the channels apart that
  \<open>make\<close> creates one after the other: the goroutine closes the channel it was started
  with, also when the model holds a newer one by then.
\<close>

record chan =
  cid :: nat
  buf :: "string list"
  closed :: bool

definition make_chan :: "chan \<Rightarrow> chan" where
  "make_chan old = \<lparr>cid = Suc (cid old), buf = [], closed = False\<rparr>"

text \<open>
  The fields of \<open>Model\<close>. Of the text area only its value is kept and of the viewport
  only its content; \<open>renders\<close> counts the calls of updateViewportContentInternal, and is
  the only field that the source does not have. \<open>glam\<close> is the markdown renderer, nil
  until the first window-size message; it renders or fails.
\<close>

record Model =
  ta_value :: string
  hold_content :: string
  renders :: nat
  ready :: bool
  glam :: "(string \<Rightarrow> error + string) option"
  history :: "Message list"
  streaming :: bool
  currentResponse :: string
  tokenChan :: chan
  stats :: Stats
  quit :: bool
  thinking :: bool
  maxHistoryDisplay :: int
  maxResponseLength :: int
  renderBuffer :: int
  lastRenderTime :: Time
  renderThrottle :: Duration

definition NewModel :: "codec \<Rightarrow> OS \<Rightarrow> failure + Model" where
  "NewModel J os =
     (case CheckFile ConversationFile os of
        Inl err \<Rightarrow> Inl (Fatal err)
      | Inr exists \<Rightarrow>
          let history0 = (if exists
                          then (case ReadConversation J os of
                                  Inl err \<Rightarrow> []
                                | Inr h \<Rightarrow> h)
                          else []);
              stats0 = (case ReadStats J os of
                          (s, Some err) \<Rightarrow> \<lparr>TotalTokens = 0\<rparr>
                        | (s, None) \<Rightarrow> s)
          in Inr \<lparr>ta_value = [], hold_content = [], renders = 0, ready = False, glam = None,
                  history = history0, streaming = False, currentResponse = [],
                  tokenChan = \<lparr>cid = 0, buf = [], closed = False\<rparr>,
                  stats = stats0, quit = False, thinking = False,
                  maxHistoryDisplay = 10, maxResponseLength = 0, renderBuffer = 5,
                  lastRenderTime = 0, renderThrottle = 100 * Millisecond\<rparr>)"

definition AddToHistory :: "Message \<Rightarrow> Model \<Rightarrow> Model" where
  "AddToHistory msg m = m\<lparr>history := history m @ [msg]\<rparr>"

definition resetOptimizationParams :: "Model \<Rightarrow> Model" where
  "resetOptimizationParams m =
     m\<lparr>maxHistoryDisplay := 10, maxResponseLength := 0, renderBuffer := 5,
       renderThrottle := 100 * Millisecond\<rparr>"

definition adjustOptimizationParams :: "Model \<Rightarrow> Model" where
  "adjustOptimizationParams m =
     (let responseLength = int (length (currentResponse m));
          m1 = (if responseLength > 10000 then m\<lparr>renderThrottle := 200 * Millisecond\<rparr>
                else if responseLength > 5000 then m\<lparr>renderThrottle := 150 * Millisecond\<rparr>
                else m\<lparr>renderThrottle := 100 * Millisecond\<rparr>)
      in m1\<lparr>maxResponseLength := 0\<rparr>)"

definition cleanupLongResponse :: "Model \<Rightarrow> Model" where
  "cleanupLongResponse m = m"

text \<open>The line of one history entry in the viewport; the icons are UTF-8 bytes.\<close>

definition history_line :: "Message \<Rightarrow> string" where
  "history_line msg =
     (if Role msg = ''user'' then
        [CHR 0xF0, CHR 0x9F, CHR 0x91, CHR 0xA4] @ '' User: '' @ Content msg @ ''\<newline>\<newline>''
      else if Role msg = ''assistant'' then
        [CHR 0xF0, CHR 0x9F, CHR 0xA4, CHR 0x96] @ '' Assistant: '' @ Content msg @ ''\<newline>\<newline>''
      else [])"

text \<open>
  The text that updateViewportContentInternal builds: the last maxHistoryDisplay
  entries of the history and, while streaming, the whole response so far. Slicing with
  a negative bound panics.
\<close>

definition logsStr :: "Model \<Rightarrow> failure + string" where
  "logsStr m =
     (let n = int (length (history m)); k = maxHistoryDisplay m in
      if n > k \<and> k < 0 then Inl (Panic ''slice bounds out of range'')
      else
        let historyToShow = (if n > k then drop (nat (n - k)) (history m) else history m);
            note = (if n > k then ''... (showing last '' @ itoa k @ '' messages) ...\<newline>\<newline>''
                    else []);
            tail = (if streaming m
                    then ''=== Streaming Response ===\<newline>\<newline>'' @ currentResponse m @
                         (if length (currentResponse m) > 0 then [CHR 0xE2, CHR 0x96, CHR 0x8C] else [])
                    else [])
        in Inr (note @ concat (map history_line historyToShow) @ tail))"

text \<open>
  The viewport gets the rendered text, or the text itself when the renderer fails.
  Scrolling the viewport to the bottom is not modelled.
\<close>

definition rendered :: "(string \<Rightarrow> error + string) \<Rightarrow> string \<Rightarrow> string" where
  "rendered render logs = (case render logs of Inl err \<Rightarrow> logs | Inr r \<Rightarrow> r)"

definition updateViewportContentInternal :: "Model \<Rightarrow> failure + Model" where
  "updateViewportContentInternal m =
     (case logsStr m of
        Inl f \<Rightarrow> Inl f
      | Inr logs \<Rightarrow>
          (case glam m of
             None \<Rightarrow> Inl (Panic ''nil pointer dereference'')
           | Some render \<Rightarrow>
               Inr (m\<lparr>hold_content := rendered render logs, renders := Suc (renders m)\<rparr>)))"

definition updateViewportContent :: "Time \<Rightarrow> Model \<Rightarrow> failure + Model" where
  "updateViewportContent now m =
     (if time_Since now (lastRenderTime m) < renderThrottle m then Inr m
      else updateViewportContentInternal (m\<lparr>lastRenderTime := now\<rparr>))"

definition UpdateStats :: "codec \<Rightarrow> Stats \<Rightarrow> Model \<times> OS \<Rightarrow> Model \<times> OS" where
  "UpdateStats J newStats s =
     (case s of (m, os) \<Rightarrow>
        let m1 = m\<lparr>stats := newStats\<rparr> in (m1, snd (WriteStats J (stats m1) os)))"

section \<open>ui/components.go: condensing the history\<close>

definition summaryPrompt :: string where
  "summaryPrompt =
     ''Please provide a detailed summary of the conlang conversation so far, focusing on:\<newline>'' @
     ''\<newline>'' @
     ''**CRITICAL INFORMATION TO INCLUDE:**\<newline>'' @
     ''- **Vocabulary and word definitions** that were discussed or created\<newline>'' @
     ''- **Phonology rules and sound systems** that were established\<newline>'' @
     ''- **Grammar rules and structures** that were defined\<newline>'' @
     ''- **Writing systems or orthography** that were developed\<newline>'' @
     ''- **Example sentences or translations** that were provided\<newline>'' @
     ''- **Specific conlang features** (cases, tenses, aspects, etc.)\<newline>'' @
     ''- **Cultural or naming conventions** that were established\<newline>'' @
     ''- **Any specific words, roots, or morphemes** that were created\<newline>'' @
     ''- **Tool call results and data operations** that were performed:\<newline>'' @
     ''  - Lexicon entries that were added via add_lexicon_entry tool\<newline>'' @
     ''  - Lexicon data that was retrieved via get_lexicon tool\<newline>'' @
     ''  - Files that were created or read via file tools\<newline>'' @
     ''  - Phonology analysis results from analyze_phonology tool\<newline>'' @
     ''  - Grammar validation results from validate_grammar tool\<newline>'' @
     ''\<newline>'' @
     ''**Format the summary to include:**\<newline>'' @
     ''- Key vocabulary with definitions (including any from tool results)\<newline>'' @
     ''- Phonological rules and sound inventory\<newline>'' @
     ''- Grammatical structures and patterns\<newline>'' @
     ''- Writing system details\<newline>'' @
     ''- Example sentences or phrases\<newline>'' @
     ''- Any constraints or preferences mentioned\<newline>'' @
     ''- **Current lexicon state** (what words have been added)\<newline>'' @
     ''- **Tool operations performed** and their results\<newline>'' @
     ''\<newline>'' @
     ''**IMPORTANT: Include any lexicon entries that were added through tool calls, as these are part of the established vocabulary.**\<newline>'' @
     ''\<newline>'' @
     ''Be comprehensive and include specific details rather than generic descriptions.''"

text \<open>The body of the loop of formatExistingContext.\<close>

definition format_turn :: "Message \<Rightarrow> string" where
  "format_turn msg =
     (let role = (if Role msg = ''assistant'' then ''Assistant'' else ''User'');
          content = (if strings_Contains (Content msg) ''[Tool Call:''
                     then strings_ReplaceAll
                            (strings_ReplaceAll (Content msg) ''[Tool Call:'' ''**[Tool Call:'')
                            '']'' '']**''
                     else Content msg)
      in ''**'' @ role @ '':** '' @ content @ ''\<newline>\<newline>'')"

definition formatExistingContext :: "Message list \<Rightarrow> string" where
  "formatExistingContext messages =
     (if length messages = 0 then ''No previous conversation''
      else
        let messages1 = (if length messages > 10
                         then drop (length messages - 10) messages
                         else messages)
        in ''Previous conversation includes:\<newline>\<newline>'' @ concat (map format_turn messages1))"

text \<open>
  \<open>messages[len(messages)-5:]\<close> panics when there are fewer than five messages, and
  \<open>response[0]\<close> panics on an empty response.
\<close>

definition generateContextSummary :: "LLM \<Rightarrow> Message list \<Rightarrow> failure + string" where
  "generateContextSummary llm messages =
     (let summaryMessages = [SystemMessage summaryPrompt] @ messages in
      case Invoke llm summaryMessages of
        Inl err \<Rightarrow>
          if length messages < 5 then Inl (Panic ''slice bounds out of range'')
          else Inr (formatExistingContext (drop (length messages - 5) messages))
      | Inr response \<Rightarrow>
          (case response of
             [] \<Rightarrow> Inl (Panic ''index out of range'')
           | r # rs \<Rightarrow> Inr (Content r)))"

definition createCondensedHistory :: "LLM \<Rightarrow> Model \<Rightarrow> failure + Message list" where
  "createCondensedHistory llm m =
     (let userMessages = filter (\<lambda>msg. Role msg = ''user'' \<or> Role msg = ''assistant'') (history m) in
      if length userMessages > 10 then
        (case generateContextSummary llm (butlast userMessages) of
           Inl f \<Rightarrow> Inl f
         | Inr summary \<Rightarrow> Inr [SystemMessage (''CONTEXT: '' @ summary)])
      else if length userMessages > 0 then
        Inr [SystemMessage (''CONTEXT: '' @ formatExistingContext userMessages)]
      else Inr [SystemMessage ''CONTEXT: No previous conversation''])"

section \<open>ui/components.go: messages, commands and Update\<close>

text \<open>
  The messages that reach the session. Window-size messages and the other keys only
  reach the text area and the viewport, which belong to the UI library, and are left
  out. A command is what Update hands back to the runtime: \<open>tick\<close> sends a tickMsg after
  50ms, \<open>tickNil\<close> is the timer at the end of a stream, whose message is nil.
\<close>

datatype KeyType = KeyEnter | KeyCtrlC

datatype Msg = tickMsg | exitMsg | streamStartMsg | KeyMsg KeyType

datatype Cmd = tick | tickNil | startStreamingCmd string | exitSequence | ExitCmd
  | Batch "Cmd list"

definition Update ::
    "codec \<Rightarrow> Msg \<Rightarrow> Time \<Rightarrow> Model \<times> OS \<Rightarrow> failure + (Model \<times> OS \<times> Cmd option)" where
  "Update J msg now s =
     (case s of (m, os) \<Rightarrow>
      (case msg of
         tickMsg \<Rightarrow>
           if streaming m then
             (case buf (tokenChan m) of
                token # rest \<Rightarrow>
                  let m1 = m\<lparr>tokenChan := (tokenChan m)\<lparr>buf := rest\<rparr>\<rparr>;
                      m2 = m1\<lparr>currentResponse := currentResponse m1 @ token\<rparr>;
                      m3 = adjustOptimizationParams m2;
                      m4 = cleanupLongResponse m3
                  in (case updateViewportContent now m4 of
                        Inl f \<Rightarrow> Inl f
                      | Inr m5 \<Rightarrow> Inr (m5, os, Some tick))
              | [] \<Rightarrow>
                  if closed (tokenChan m) then
                    let m1 = m\<lparr>streaming := False\<rparr>;
                        m2 = AddToHistory (AssistantMessage (currentResponse m1) []) m1;
                        m3 = resetOptimizationParams m2;
                        m4 = m3\<lparr>lastRenderTime := 0\<rparr>
                    in (case updateViewportContentInternal m4 of
                          Inl f \<Rightarrow> Inl f
                        | Inr m5 \<Rightarrow>
                            Inr (m5, snd (WriteConversation J (history m5) os), Some tickNil))
                  else Inr (m, os, Some tick))
           else Inr (m, os, None)
       | exitMsg \<Rightarrow> Inr (m, os, Some exitSequence)
       | streamStartMsg \<Rightarrow> Inr (m, os, Some tick)
       | KeyMsg KeyEnter \<Rightarrow>
           if streaming m then Inr (m, os, None)
           else
             let userMessage = ta_value m in
             if userMessage = [] then Inr (m, os, None)
             else
               let m1 = AddToHistory (UserMessage userMessage) m in
               (case updateViewportContent now m1 of
                  Inl f \<Rightarrow> Inl f
                | Inr m2 \<Rightarrow>
                    let m3 = m2\<lparr>streaming := True\<rparr>;
                        m4 = m3\<lparr>currentResponse := []\<rparr>;
                        m5 = m4\<lparr>tokenChan := make_chan (tokenChan m4)\<rparr>;
                        m6 = m5\<lparr>ta_value := []\<rparr>
                    in Inr (m6, os, Some (Batch [startStreamingCmd userMessage])))
       | KeyMsg KeyCtrlC \<Rightarrow>
           let os1 = snd (WriteConversation J (history m) os);
               os2 = snd (WriteStats J (stats m) os1)
           in Inr (m, os2, Some ExitCmd)))"

section \<open>ui/components.go: starting a stream, and the receiving goroutine\<close>

text \<open>
  The goroutine that startStreaming starts: \<open>closes\<close> is the channel its deferred
  \<open>close\<close> was given, \<open>reader\<close> is what is left of the stream, and \<open>sending\<close> is \<open>None\<close>
  at the top of the loop and otherwise the tokens of the current batch that are still
  to be sent before UpdateStats is called.
\<close>

record pump =
  closes :: nat
  sending :: "string list option"
  reader :: StreamReader

definition tool_info :: "ToolCall \<Rightarrow> string" where
  "tool_info toolCall = ''\<newline>[Tool Call: '' @ Function_Name toolCall @ '']\<newline>''"

text \<open>
  The tokens that the body of the loop sends for the first message of a batch: one per
  tool call, then the content if it is not empty.
\<close>

definition message_tokens :: "Message \<Rightarrow> string list" where
  "message_tokens message =
     map tool_info (ToolCalls message) @
     (if Content message \<noteq> [] then [Content message] else [])"

text \<open>
  The command that startStreaming returns, run when the clock reads \<open>now\<close>: it gives
  the model, the goroutine it has started, if any, and its message (\<open>None\<close> is nil).
\<close>

definition startStreaming ::
    "LLM \<Rightarrow> string \<Rightarrow> Time \<Rightarrow> Model \<Rightarrow> failure + (Model \<times> pump option \<times> Msg option)" where
  "startStreaming llm userMessage now m =
     (case createCondensedHistory llm m of
        Inl f \<Rightarrow> Inl f
      | Inr contextMessages \<Rightarrow>
          let requestMessage = UserMessage (''REQUEST: '' @ userMessage);
              messages = contextMessages @ [requestMessage];
              systemMessages = filter (\<lambda>msg. Role msg = ''system'') (history m);
              messages1 = (if length systemMessages > 0 then systemMessages @ messages
                           else messages)
          in (case Stream llm messages1 of
                Inl err \<Rightarrow>
                  let m1 = m\<lparr>thinking := False\<rparr>;
                      m2 = m1\<lparr>streaming := False\<rparr>
                  in (case updateViewportContent now m2 of
                        Inl f \<Rightarrow> Inl f
                      | Inr m3 \<Rightarrow> Inr (m3, None, None))
              | Inr response \<Rightarrow>
                  let m1 = m\<lparr>tokenChan := make_chan (tokenChan m)\<rparr> in
                  Inr (m1,
                       Some \<lparr>closes = cid (tokenChan m1), sending = None, reader = response\<rparr>,
                       Some streamStartMsg)))"

text \<open>
  One step of the goroutine. At the top of the loop it receives: at the end of the
  stream (io.EOF or an error alike) it leaves the loop, and the deferred calls set
  \<open>thinking\<close> and close the channel; an empty batch is skipped; of any other batch the
  first message gives the tokens to send, one per tool call and then the content if
  it is not empty. A send waits while the channel is full and panics on a closed
  channel. When the tokens of the batch are sent, UpdateStats adds one.
\<close>

definition pump_step ::
    "codec \<Rightarrow> Model \<times> OS \<times> pump \<Rightarrow> failure + (Model \<times> OS \<times> pump option)" where
  "pump_step J s =
     (case s of (m, os, p) \<Rightarrow>
      (case sending p of
         None \<Rightarrow>
           (case fst (reader p) of
              [] \<Rightarrow>
                let m1 = m\<lparr>thinking := False\<rparr> in
                if cid (tokenChan m1) = closes p then
                  (if closed (tokenChan m1) then Inl (Panic ''close of closed channel'')
                   else Inr (m1\<lparr>tokenChan := (tokenChan m1)\<lparr>closed := True\<rparr>\<rparr>, os, None))
                else Inr (m1, os, None)
            | msg # rest \<Rightarrow>
                let p1 = p\<lparr>reader := (rest, snd (reader p))\<rparr> in
                (case msg of
                   [] \<Rightarrow> Inr (m, os, Some p1)
                 | message # ms \<Rightarrow>
                     Inr (m, os, Some (p1\<lparr>sending := Some (message_tokens message)\<rparr>))))
       | Some [] \<Rightarrow>
           (case UpdateStats J \<lparr>TotalTokens = TotalTokens (stats m) + 1\<rparr> (m, os) of
              (m1, os1) \<Rightarrow> Inr (m1, os1, Some (p\<lparr>sending := None\<rparr>)))
       | Some (t # ts) \<Rightarrow>
           if closed (tokenChan m) then Inl (Panic ''send on closed channel'')
           else if length (buf (tokenChan m)) < 100 then
             Inr (m\<lparr>tokenChan := (tokenChan m)\<lparr>buf := buf (tokenChan m) @ [t]\<rparr>\<rparr>, os,
                  Some (p\<lparr>sending := Some ts\<rparr>))
           else Inr (m, os, Some p)))"

section \<open>The session as a system\<close>

text \<open>
  A state of the running session is the model, the file system and the goroutine of the
  current stream, if there is one. The control loop and the goroutine take turns in any
  order: an event is a message handled by Update when the clock reads a given time, or
  one step of the goroutine. The commands that Update returns are dropped here; the
  runtime turns them into later events.
\<close>

datatype event = UI Msg Time | PumpStep

type_synonym session = "Model \<times> OS \<times> pump option"

definition sys_step :: "codec \<Rightarrow> event \<Rightarrow> session \<Rightarrow> failure + session" where
  "sys_step J ev s =
     (case s of (m, os, p) \<Rightarrow>
      (case ev of
         UI msg now \<Rightarrow>
           (case Update J msg now (m, os) of
              Inl f \<Rightarrow> Inl f
            | Inr (m1, os1, c) \<Rightarrow> Inr (m1, os1, p))
       | PumpStep \<Rightarrow>
           (case p of
              None \<Rightarrow> Inr (m, os, None)
            | Some pp \<Rightarrow> pump_step J (m, os, pp))))"

fun run :: "codec \<Rightarrow> event list \<Rightarrow> session \<Rightarrow> failure + session" where
  "run J [] s = Inr s"
| "run J (ev # evs) s =
     (case sys_step J ev s of
        Inl f \<Rightarrow> Inl f
      | Inr s1 \<Rightarrow> run J evs s1)"


text \<open>
  How often the goroutine will still call UpdateStats: once for the batch it is sending,
  and once for every batch of the rest of the stream that is not empty.
\<close>

definition pending_increments :: "pump option \<Rightarrow> nat" where
  "pending_increments p =
     (case p of
        None \<Rightarrow> 0
      | Some pp \<Rightarrow>
          (case sending pp of None \<Rightarrow> 0 | Some ts \<Rightarrow> 1) +
          length (filter (\<lambda>msg. msg \<noteq> []) (fst (reader pp))))"

text \<open>
  The tokens that the goroutine will still send: the rest of the batch it is sending,
  and the tokens of the first message of every batch of the rest of the stream.
\<close>

definition batch_tokens :: "Message list \<Rightarrow> string list" where
  "batch_tokens msg = (case msg of [] \<Rightarrow> [] | message # ms \<Rightarrow> message_tokens message)"

definition pending_tokens :: "pump option \<Rightarrow> string list" where
  "pending_tokens p =
     (case p of
        None \<Rightarrow> []
      | Some pp \<Rightarrow>
          (case sending pp of None \<Rightarrow> [] | Some ts \<Rightarrow> ts) @
          concat (map batch_tokens (fst (reader pp))))"

text \<open>
  The model can render: the renderer is there, which the first window-size message
  sees to, and the number of history entries to show is not negative.
\<close>

definition renderable :: "Model \<Rightarrow> bool" where
  "renderable m = (glam m \<noteq> None \<and> 0 \<le> maxHistoryDisplay m)"

text \<open>
  The throttle interval as the specification words it: 100ms under 5,000 characters,
  150ms between 5,000 and 10,000, 200ms above 10,000.
\<close>

definition stated_min_interval :: "nat \<Rightarrow> Duration" where
  "stated_min_interval n =
     (if n < 5000 then 100 * Millisecond
      else if n \<le> 10000 then 150 * Millisecond
      else 200 * Millisecond)"

text \<open>
  The number of text-bearing fragments of a stream, as the specification counts them:
  the batches whose first message has a content that is not empty.
\<close>

definition text_fragments :: "Message list list \<Rightarrow> nat" where
  "text_fragments batches =
     length (filter (\<lambda>msg. case msg of [] \<Rightarrow> False | message # ms \<Rightarrow> Content message \<noteq> []) batches)"





section \<open>Example inputs\<close>

text \<open>
  A new installation: the home directory exists, the application directory below it
  does not. The program is started in the directory \<open>/work\<close>.
\<close>

definition fresh_os :: OS where
  "fresh_os = \<lparr>home = Some [''home'', ''u''], cwd = [''work''],
               dirs = {[], [''home''], [''home'', ''u''], [''work'']}, files = Map.empty\<rparr>"

text \<open>An installation whose application directories all exist, with no file yet.\<close>

definition installed_os :: OS where
  "installed_os = \<lparr>home = Some [''home'', ''u''], cwd = [''work''],
               dirs = {[], [''home''], [''home'', ''u''], [''work''], [''home'', ''u'', ''l2''],
                       [''home'', ''u'', ''l2'', ''conversations''],
                       [''home'', ''u'', ''l2'', ''data'']},
               files = Map.empty\<rparr>"

definition example_history :: "Message list" where
  "example_history = [UserMessage ''Hello'', AssistantMessage ''Hi there!'' []]"

definition example_history_json :: bytes where
  \<open>example_history_json =
     ''[{"role":"user","content":"Hello"},{"role":"assistant","content":"Hi there!"}]''\<close>

definition kala :: LexiconEntry where
  "kala = \<lparr>Word = ''kala'', Definition = ''fish'', PartOfSpeech = ''noun'', Etymology = []\<rparr>"

definition kala_json :: bytes where
  \<open>kala_json = ''[{"word":"kala","definition":"fish","part_of_speech":"noun","etymology":""}]''\<close>

text \<open>
  A codec for the examples: it agrees with \<open>encoding/json\<close> on the values that the
  examples write and read, and rejects every other text as malformed.
\<close>

definition example_codec :: codec where
  \<open>example_codec =
     \<lparr>Marshal_history = (\<lambda>h. if h = example_history then Inr example_history_json
                              else if h = [] then Inr ''[]''
                              else Inr ''[...]''),
      Unmarshal_history = (\<lambda>d. if d = example_history_json then Inr example_history
                                else if d = ''[]'' then Inr []
                                else Inl ''invalid character''),
      Marshal_stats = (\<lambda>st. Inr (''{"total_tokens":'' @ itoa (sint (TotalTokens st)) @ ''}'')),
      Unmarshal_stats = (\<lambda>d. if d = ''{"total_tokens":3}'' then Inr \<lparr>TotalTokens = 3\<rparr>
                              else Inl ''invalid character''),
      MarshalIndent_entries = (\<lambda>es. if es = [kala] then Inr kala_json else Inr ''[...]''),
      Unmarshal_entries = (\<lambda>d. if d = kala_json then ([kala], None)
                                else ([], Some ''invalid character''))\<rparr>\<close>


text \<open>
  A session after the first window-size message, with the text "Hello" typed and not
  yet sent. Its renderer leaves the text as it is.
\<close>

definition typed_model :: Model where
  "typed_model =
     \<lparr>ta_value = ''Hello'', hold_content = [], renders = 0, ready = True,
      glam = Some (\<lambda>logs. Inr logs), history = [], streaming = False, currentResponse = [],
      tokenChan = \<lparr>cid = 0, buf = [], closed = False\<rparr>,
      stats = \<lparr>TotalTokens = 0\<rparr>, quit = False, thinking = False,
      maxHistoryDisplay = 10, maxResponseLength = 0, renderBuffer = 5,
      lastRenderTime = 0, renderThrottle = 100 * Millisecond\<rparr>"

text \<open>A backend whose stream gives "Hi", " there" and "!" and then ends.\<close>

definition greeting_llm :: LLM where
  "greeting_llm =
     \<lparr>Invoke = (\<lambda>messages. Inl ''context deadline exceeded''),
      Stream = (\<lambda>messages. Inr ([[AssistantMessage ''Hi'' []], [AssistantMessage '' there'' []],
                                   [AssistantMessage ''!'' []]], None))\<rparr>"

text \<open>A stream of one batch, a message that carries two tool calls and no text.\<close>

definition tool_call_pump :: pump where
  "tool_call_pump =
     \<lparr>closes = 0, sending = None,
      reader = ([[AssistantMessage []
                    [\<lparr>Function_Name = ''get_lexicon'', Function_Arguments = ''{}''\<rparr>,
                     \<lparr>Function_Name = ''read_file'', Function_Arguments = ''{}''\<rparr>]]],
                None)\<rparr>"

text \<open>
  The session after "Hello" is sent at second 5, and after the command that starts the
  stream has run; the goroutine of that stream; and a schedule in which the goroutine
  and the control loop take turns, the ticks 50ms apart, with one more press of the
  enter key while the stream runs. The schedule ends when the channel is closed and
  empty, before the tick that sees it.
\<close>

definition accepted_model :: Model where
  "accepted_model =
     fst (projr (Update example_codec (KeyMsg KeyEnter) 5000000000 (typed_model, installed_os)))"

definition started_model :: Model where
  "started_model = fst (projr (startStreaming greeting_llm ''Hello'' 5000000001 accepted_model))"

definition greeting_pump :: pump where
  "greeting_pump =
     \<lparr>closes = 2, sending = None,
      reader = ([[AssistantMessage ''Hi'' []], [AssistantMessage '' there'' []],
                 [AssistantMessage ''!'' []]], None)\<rparr>"

definition greeting_schedule :: "event list" where
  "greeting_schedule =
     [PumpStep, PumpStep, PumpStep, UI tickMsg 5050000000, PumpStep, PumpStep,
      UI (KeyMsg KeyEnter) 5060000000, PumpStep, PumpStep, PumpStep, PumpStep, PumpStep,
      UI tickMsg 5100000000, UI tickMsg 5150000000]"

text \<open>
  A history of the system prompt and eleven turns, the last of them the request just
  sent; a history with a tool-call marker in the answer; and an installation whose
  conversation record is cut off and whose statistics record has a text for a number.
\<close>

definition long_history :: "Message list" where
  "long_history =
     [SystemMessage ''You are ConlangGPT'',
      UserMessage ''q1'', AssistantMessage ''a1'' [], UserMessage ''q2'', AssistantMessage ''a2'' [],
      UserMessage ''q3'', AssistantMessage ''a3'' [], UserMessage ''q4'', AssistantMessage ''a4'' [],
      UserMessage ''q5'', AssistantMessage ''a5'' [], UserMessage ''q6'']"


definition corrupted_os :: OS where
  \<open>corrupted_os =
     installed_os\<lparr>files :=
       [[''home'', ''u'', ''l2'', ''conversations'', ''conversation.json''] \<mapsto> ''[{"role":'',
        [''home'', ''u'', ''l2'', ''stats.json''] \<mapsto> ''{"total_tokens":"many"}'']\<rparr>\<close>

section \<open>Facts about the storage layer\<close>

lemmas path_defs = pathMap_def ConversationFile_def StatsFile_def DataFile_def SystemFile_def
  conversationFilePath_def statsFilePath_def dataPath_def systemFilePath_def rootPath_def

lemmas os_defs = os_Stat_def os_MkdirAll_def os_WriteFile_def os_ReadFile_def os_UserHomeDir_def
  resolve_def filepath_Dir_def filepath_Join_def

lemmas storage_defs = WriteConversation_def WriteStats_def WriteDataFile_def CheckFile_def
  GetPath_def WriteFile_def ReadFile_def ReadConversation_def ReadStats_def ReadDataFile_def











section \<open>Persistence: the round trip of the conversation\<close>





section \<open>Persistence: the parent directory of a record\<close>

text \<open>
  C9. On a new installation no write of a record succeeds. WriteConversation and
  WriteStats create the directory of the relative path of the record (below the working
  directory) and not the directory of the file they then write below the home
  directory; WriteDataFile creates the application directory and not the data
  directory below it, in which it then writes.
\<close>

theorem writes_fail_on_fresh_install:
  "fst (WriteConversation J h fresh_os) \<noteq> None \<and>
   files (snd (WriteConversation J h fresh_os)) = Map.empty \<and>
   [''work'', ''conversations''] \<in> dirs (snd (WriteConversation J h fresh_os)) \<and>
   [''home'', ''u'', ''l2'', ''conversations''] \<notin> dirs (snd (WriteConversation J h fresh_os)) \<and>
   fst (WriteStats J st fresh_os) \<noteq> None \<and>
   files (snd (WriteStats J st fresh_os)) = Map.empty \<and>
   WriteDataFile [''lexicon.json''] d fresh_os =
     (Some ''no such file or directory'',
      fresh_os\<lparr>dirs := insert [''home'', ''u'', ''l2''] (dirs fresh_os)\<rparr>)"
proof -
  note defs = storage_defs os_defs path_defs Let_def fresh_os_def prefixes_snoc
  have a: "fst (WriteConversation J h fresh_os) \<noteq> None"
    by (cases "Marshal_history J h") (simp_all add: defs)
  have b: "files (snd (WriteConversation J h fresh_os)) = Map.empty"
    by (cases "Marshal_history J h") (simp_all add: defs)
  have c: "[''work'', ''conversations''] \<in> dirs (snd (WriteConversation J h fresh_os))"
    by (cases "Marshal_history J h") (simp_all add: defs)
  have d: "[''home'', ''u'', ''l2'', ''conversations''] \<notin> dirs (snd (WriteConversation J h fresh_os))"
    by (cases "Marshal_history J h") (simp_all add: defs)
  have e: "fst (WriteStats J st fresh_os) \<noteq> None"
    by (cases "Marshal_stats J st") (simp_all add: defs)
  have f: "files (snd (WriteStats J st fresh_os)) = Map.empty"
    by (cases "Marshal_stats J st") (simp_all add: defs)
  have g: "WriteDataFile [''lexicon.json''] d fresh_os =
     (Some ''no such file or directory'',
      fresh_os\<lparr>dirs := insert [''home'', ''u'', ''l2''] (dirs fresh_os)\<rparr>)"
    by (auto simp add: defs)
  from a b c d e f g show ?thesis by blast
qed

section \<open>The lexicon tool: duplicates\<close>






section \<open>Facts about rendering and Update\<close>

lemma logsStr_ok: "0 \<le> maxHistoryDisplay m \<Longrightarrow> \<exists>logs. logsStr m = Inr logs"
  by (simp add: logsStr_def Let_def)

lemma updateViewportContentInternal_ok:
  assumes "glam m = Some g" "0 \<le> maxHistoryDisplay m"
  shows "\<exists>logs. logsStr m = Inr logs \<and>
     updateViewportContentInternal m =
       Inr (m\<lparr>hold_content := rendered g logs, renders := Suc (renders m)\<rparr>)"
  using assms logsStr_ok [of m]
  by (auto simp: updateViewportContentInternal_def)


lemma updateViewportContent_frame:
  assumes "updateViewportContent now m = Inr m'"
  shows "m' = m\<lparr>hold_content := hold_content m', renders := renders m',
                 lastRenderTime := lastRenderTime m'\<rparr>"
  using assms
  by (auto simp: updateViewportContent_def updateViewportContentInternal_def
      split: if_splits sum.splits option.splits)

lemma updateViewportContent_ok:
  assumes "renderable m"
  shows "\<exists>m'. updateViewportContent now m = Inr m'"
proof (cases "time_Since now (lastRenderTime m) < renderThrottle m")
  case True
  then show ?thesis by (simp add: updateViewportContent_def)
next
  case False
  from assms obtain g where g: "glam (m\<lparr>lastRenderTime := now\<rparr>) = Some g"
    and k: "0 \<le> maxHistoryDisplay (m\<lparr>lastRenderTime := now\<rparr>)"
    by (auto simp: renderable_def)
  from updateViewportContentInternal_ok [OF g k] False show ?thesis
    by (auto simp: updateViewportContent_def)
qed


lemma Update_KeyEnter_ignored:
  "streaming m \<or> ta_value m = [] \<Longrightarrow> Update J (KeyMsg KeyEnter) now (m, os) = Inr (m, os, None)"
  by (auto simp: Update_def)

lemma Update_tick_token:
  assumes s: "streaming m" and b: "buf (tokenChan m) = token # rest" and r: "renderable m"
  shows "\<exists>m'. Update J tickMsg now (m, os) = Inr (m', os, Some tick) \<and>
     currentResponse m' = currentResponse m @ token \<and>
     renderThrottle m' = renderThrottle (adjustOptimizationParams (m\<lparr>currentResponse := currentResponse m @ token\<rparr>)) \<and>
     tokenChan m' = (tokenChan m)\<lparr>buf := rest\<rparr> \<and>
     history m' = history m \<and> streaming m' \<and> stats m' = stats m \<and> glam m' = glam m"
proof -
  let ?m4 = "cleanupLongResponse (adjustOptimizationParams
      (m\<lparr>tokenChan := (tokenChan m)\<lparr>buf := rest\<rparr>, currentResponse := currentResponse m @ token\<rparr>))"
  from r have "renderable ?m4"
    by (simp add: renderable_def cleanupLongResponse_def adjustOptimizationParams_def Let_def)
  from updateViewportContent_ok [OF this] obtain m' where
    u: "updateViewportContent now ?m4 = Inr m'" by blast
  from updateViewportContent_frame [OF u] have
    f: "m' = ?m4\<lparr>hold_content := hold_content m', renders := renders m',
                 lastRenderTime := lastRenderTime m'\<rparr>" .
  have "Update J tickMsg now (m, os) = Inr (m', os, Some tick)"
    using s b u by (simp add: Update_def Let_def)
  moreover have "currentResponse m' = currentResponse m @ token"
    "tokenChan m' = (tokenChan m)\<lparr>buf := rest\<rparr>" "history m' = history m"
    "streaming m'" "stats m' = stats m" "glam m' = glam m"
    "renderThrottle m' = renderThrottle (adjustOptimizationParams (m\<lparr>currentResponse := currentResponse m @ token\<rparr>))"
    using s by (subst f, simp add: cleanupLongResponse_def adjustOptimizationParams_def Let_def)+
  ultimately show ?thesis by blast
qed

lemma adjust_throttle:
  "renderThrottle (adjustOptimizationParams m) =
     (if length (currentResponse m) > 10000 then 200 * Millisecond
      else if length (currentResponse m) > 5000 then 150 * Millisecond
      else 100 * Millisecond)"
  by (simp add: adjustOptimizationParams_def Let_def)

section \<open>Facts about the session\<close>


lemma Update_stats: 
  assumes u: "Update J msg now (m, os) = Inr (m', os', c)"
  shows "stats m' = stats m"
proof -
  have uv: "\<And>a b. updateViewportContent now a = Inr b \<Longrightarrow> stats b = stats a"
    by (drule updateViewportContent_frame, erule ssubst, simp)
  have ui: "\<And>a b. updateViewportContentInternal a = Inr b \<Longrightarrow> stats b = stats a"
    by (auto simp: updateViewportContentInternal_def split: sum.splits option.splits)
  show ?thesis
  proof (cases msg)
    case tickMsg
    with u show ?thesis
      by (auto simp: Update_def Let_def cleanupLongResponse_def adjustOptimizationParams_def
          resetOptimizationParams_def AddToHistory_def
          split: if_splits sum.splits list.splits dest!: uv ui)
  next
    case exitMsg
    with u show ?thesis by (auto simp: Update_def)
  next
    case streamStartMsg
    with u show ?thesis by (auto simp: Update_def)
  next
    case (KeyMsg k)
    with u show ?thesis
      by (cases k) (auto simp: Update_def Let_def AddToHistory_def split: if_splits sum.splits dest!: uv)
  qed
qed

lemma pump_step_cases:
  assumes "pump_step J (m, os, pp) = Inr (m', os', p')"
  shows "history m' = history m \<and> glam m' = glam m \<and> streaming m' = streaming m \<and>
     currentResponse m' = currentResponse m \<and> cid (tokenChan m') = cid (tokenChan m) \<and>
     TotalTokens (stats m') + of_nat (pending_increments p') =
       TotalTokens (stats m) + of_nat (pending_increments (Some pp)) \<and>
     concat (buf (tokenChan m')) @ concat (pending_tokens p') =
       concat (buf (tokenChan m)) @ concat (pending_tokens (Some pp)) \<and>
     (cid (tokenChan m) = closes pp \<longrightarrow> \<not> closed (tokenChan m) \<longrightarrow>
        (case p' of Some pp' \<Rightarrow> closes pp' = closes pp \<and> \<not> closed (tokenChan m')
                  | None \<Rightarrow> closed (tokenChan m')))"
  using assms
  by (auto simp: pump_step_def UpdateStats_def Let_def pending_increments_def pending_tokens_def
      batch_tokens_def
      split: option.splits list.splits if_splits prod.splits)

lemma sys_step_tokens:
  assumes "sys_step J ev (m, os, p) = Inr (m', os', p')"
  shows "TotalTokens (stats m') + of_nat (pending_increments p') =
         TotalTokens (stats m) + of_nat (pending_increments p)"
proof (cases ev)
  case (UI msg now)
  with assms obtain c where "Update J msg now (m, os) = Inr (m', os', c)" and "p' = p"
    by (auto simp: sys_step_def split: sum.splits)
  with Update_stats [of J msg now m os m' os' c] show ?thesis by simp
next
  case PumpStep
  show ?thesis
  proof (cases p)
    case None
    with assms PumpStep show ?thesis by (simp add: sys_step_def)
  next
    case (Some pp)
    with assms PumpStep have "pump_step J (m, os, pp) = Inr (m', os', p')"
      by (simp add: sys_step_def)
    from pump_step_cases [OF this] Some show ?thesis by simp
  qed
qed

lemma run_tokens:
  "run J es (m, os, p) = Inr (m', os', p') \<Longrightarrow>
   TotalTokens (stats m') + of_nat (pending_increments p') =
   TotalTokens (stats m) + of_nat (pending_increments p)"
proof (induction es arbitrary: m os p)
  case Nil
  then show ?case by simp
next
  case (Cons ev es)
  from Cons.prems obtain m1 os1 p1 where
    st: "sys_step J ev (m, os, p) = Inr (m1, os1, p1)" and
    rn: "run J es (m1, os1, p1) = Inr (m', os', p')"
    by (auto split: sum.splits)
  from Cons.IH [OF rn] sys_step_tokens [OF st] show ?case by simp
qed



lemma Update_KeyEnter_accepted:
  assumes "\<not> streaming m" "ta_value m \<noteq> []"
    and "Update J (KeyMsg KeyEnter) now (m, os) = Inr (m', os', c)"
  shows "history m' = history m @ [UserMessage (ta_value m)] \<and> streaming m' \<and>
     currentResponse m' = [] \<and> glam m' = glam m \<and> os' = os \<and>
     c = Some (Batch [startStreamingCmd (ta_value m)])"
proof -
  from assms obtain m2 where
    uv: "updateViewportContent now (AddToHistory (UserMessage (ta_value m)) m) = Inr m2" and
    m': "m' = m2\<lparr>streaming := True, currentResponse := [],
                 tokenChan := make_chan (tokenChan m2), ta_value := []\<rparr>" and
    rest: "os' = os" "c = Some (Batch [startStreamingCmd (ta_value m)])"
    by (auto simp: Update_def Let_def split: sum.splits)
  have "history m2 = history m @ [UserMessage (ta_value m)]" "glam m2 = glam m"
    by (subst updateViewportContent_frame [OF uv], simp add: AddToHistory_def)+
  with m' rest show ?thesis by simp
qed



lemmas render_defs = updateViewportContent_def updateViewportContentInternal_def logsStr_def
  rendered_def history_line_def time_Since_def time_Sub_def maxDuration_def minDuration_def
  Millisecond_def

lemmas model_defs = AddToHistory_def resetOptimizationParams_def adjustOptimizationParams_def
  cleanupLongResponse_def make_chan_def UserMessage_def AssistantMessage_def SystemMessage_def

lemmas pump_defs = pump_step_def UpdateStats_def message_tokens_def tool_info_def sys_step_def


lemma accepted_model_fields:
  "history accepted_model = [UserMessage ''Hello'']" "streaming accepted_model"
  "tokenChan accepted_model = \<lparr>cid = 1, buf = [], closed = False\<rparr>"
  "currentResponse accepted_model = []" "glam accepted_model = Some (\<lambda>logs. Inr logs)"
  "lastRenderTime accepted_model = 5000000000" "renderThrottle accepted_model = 100000000"
  "maxHistoryDisplay accepted_model = 10" "stats accepted_model = \<lparr>TotalTokens = 0\<rparr>"
  by (simp_all add: accepted_model_def Update_def typed_model_def render_defs model_defs Let_def)


lemma started_model_eq:
  "started_model = accepted_model\<lparr>tokenChan := \<lparr>cid = 2, buf = [], closed = False\<rparr>\<rparr>"
  by (simp add: started_model_def startStreaming_def createCondensedHistory_def
      accepted_model_fields greeting_llm_def greeting_pump_def model_defs Let_def)

lemma greeting_run:
  "\<exists>m3 os3. run example_codec greeting_schedule (started_model, installed_os, Some greeting_pump) =
       Inr (m3, os3, None) \<and>
     buf (tokenChan m3) = [] \<and> closed (tokenChan m3) \<and> TotalTokens (stats m3) = 3"
  by (simp add: greeting_schedule_def started_model_eq accepted_model_def greeting_pump_def
      Update_def typed_model_def render_defs model_defs pump_defs storage_defs os_defs path_defs
      example_codec_def installed_os_def Let_def)


section \<open>The session: a stream that completes\<close>



section \<open>The session: counting tokens\<close>

text \<open>
  C2, as the code has it. Whatever the schedule, when the goroutine has run to its end
  the counter is its value before the stream plus the number of batches received that
  are not empty (modulo 2^64): UpdateStats is called once for each such batch, whether
  its first message carries text, only tool calls, or neither, and nothing else
  changes the counter.
\<close>

theorem total_tokens_after_stream:
  assumes "run J es (m, os, Some p) = Inr (m', os', None)" and "sending p = None"
  shows "TotalTokens (stats m') =
     TotalTokens (stats m) + of_nat (length (filter (\<lambda>msg. msg \<noteq> []) (fst (reader p))))"
  using run_tokens [OF assms(1)] assms(2)
  by (simp add: pending_increments_def)

text \<open>The stream of "Hi", " there" and "!" adds three.\<close>

theorem total_tokens_after_stream_witness:
  "\<exists>m3 os3.
     run example_codec greeting_schedule (started_model, installed_os, Some greeting_pump) =
       Inr (m3, os3, None) \<and>
     TotalTokens (stats m3) = TotalTokens (stats started_model) + 3"
proof -
  from greeting_run obtain m3 os3 where
    r: "run example_codec greeting_schedule (started_model, installed_os, Some greeting_pump) =
       Inr (m3, os3, None)"
    by blast
  have s: "sending greeting_pump = None" by (simp add: greeting_pump_def)
  from total_tokens_after_stream [OF r s] have
    "TotalTokens (stats m3) = TotalTokens (stats started_model) + 3"
    by (simp add: greeting_pump_def AssistantMessage_def)
  with r show ?thesis by blast
qed

text \<open>
  C2 as stated fails: a stream of one batch with two tool calls and no text has no
  text-bearing fragment, it puts two tool-call markers into the channel, and the
  counter goes up by one.
\<close>

theorem total_tokens_counterexample:
  "(case run example_codec [PumpStep, PumpStep, PumpStep, PumpStep, PumpStep]
           (typed_model\<lparr>streaming := True\<rparr>, installed_os, Some tool_call_pump) of
      Inl f \<Rightarrow> False
    | Inr (m', os', p') \<Rightarrow>
        p' = None \<and> TotalTokens (stats m') = TotalTokens (stats typed_model) + 1 \<and>
        TotalTokens (stats m') \<noteq>
          TotalTokens (stats typed_model) + of_nat (text_fragments (fst (reader tool_call_pump))) \<and>
        buf (tokenChan m') =
          [''\<newline>[Tool Call: get_lexicon]\<newline>'', ''\<newline>[Tool Call: read_file]\<newline>'']) \<and>
   text_fragments (fst (reader tool_call_pump)) = 0"
  by (simp add: tool_call_pump_def text_fragments_def
      typed_model_def model_defs pump_defs storage_defs os_defs path_defs
      example_codec_def installed_os_def Let_def)

section \<open>The session: input that is ignored\<close>

text \<open>
  C6. A press of the enter key while the session streams, or with an empty text while
  it is idle, changes nothing: Update returns the model and the file system as they
  were (history, pending response, statistics, channel and text area included) and no
  command, so that no stream is started and nothing is kept for later.
\<close>

theorem Update_KeyEnter_rejected:
  assumes "streaming m \<or> ta_value m = []"
  shows "Update J (KeyMsg KeyEnter) now (m, os) = Inr (m, os, None)"
  using assms by (rule Update_KeyEnter_ignored)

text \<open>Both cases: the enter key during the stream of the example, and an empty text.\<close>

theorem Update_KeyEnter_rejected_witness:
  "Update example_codec (KeyMsg KeyEnter) 5060000000 (started_model, installed_os) =
     Inr (started_model, installed_os, None) \<and>
   Update example_codec (KeyMsg KeyEnter) 5000000000 (typed_model\<lparr>ta_value := []\<rparr>, installed_os) =
     Inr (typed_model\<lparr>ta_value := []\<rparr>, installed_os, None)"
proof -
  have a: "streaming started_model \<or> ta_value started_model = []"
    by (simp add: started_model_eq accepted_model_fields)
  have b: "streaming (typed_model\<lparr>ta_value := []\<rparr>) \<or> ta_value (typed_model\<lparr>ta_value := []\<rparr>) = []"
    by simp
  from Update_KeyEnter_rejected [OF a] Update_KeyEnter_rejected [OF b] show ?thesis by simp
qed

section \<open>The session: the throttle interval\<close>

text \<open>
  C5, as the code has it. A tick that takes a token from the channel appends it to the
  response, which is never cut, and sets the throttle interval from the length of the
  response in bytes: 100ms up to 5,000, 150ms above 5,000 and up to 10,000, 200ms
  above 10,000. The interval never decreases when the length grows.
\<close>

theorem throttle_after_fragment:
  assumes "streaming m" and "buf (tokenChan m) = token # rest" and "renderable m"
  shows "\<exists>m'. Update J tickMsg now (m, os) = Inr (m', os, Some tick) \<and>
     currentResponse m' = currentResponse m @ token \<and>
     renderThrottle m' =
       (if length (currentResponse m') \<le> 5000 then 100 * Millisecond
        else if length (currentResponse m') \<le> 10000 then 150 * Millisecond
        else 200 * Millisecond) \<and>
     (\<forall>a b. length (currentResponse a) \<le> length (currentResponse b) \<longrightarrow>
        renderThrottle (adjustOptimizationParams a) \<le> renderThrottle (adjustOptimizationParams b))"
proof -
  from Update_tick_token [OF assms, of J now os] obtain m' where
    u: "Update J tickMsg now (m, os) = Inr (m', os, Some tick)" and
    c: "currentResponse m' = currentResponse m @ token" and
    t: "renderThrottle m' =
      renderThrottle (adjustOptimizationParams (m\<lparr>currentResponse := currentResponse m @ token\<rparr>))"
    by blast
  from t c have "renderThrottle m' =
       (if length (currentResponse m') \<le> 5000 then 100 * Millisecond
        else if length (currentResponse m') \<le> 10000 then 150 * Millisecond
        else 200 * Millisecond)"
    by (simp add: adjust_throttle)
  moreover have "\<forall>a b. length (currentResponse a) \<le> length (currentResponse b) \<longrightarrow>
        renderThrottle (adjustOptimizationParams a) \<le> renderThrottle (adjustOptimizationParams b)"
    by (simp add: adjust_throttle Millisecond_def)
  ultimately show ?thesis using u c by blast
qed

text \<open>The first token of the example: the response is "Hi" and the interval 100ms.\<close>

theorem throttle_after_fragment_witness:
  "\<exists>m'. Update example_codec tickMsg 5050000000
          (started_model\<lparr>tokenChan := \<lparr>cid = 2, buf = [''Hi''], closed = False\<rparr>\<rparr>, installed_os) =
        Inr (m', installed_os, Some tick) \<and>
     currentResponse m' = ''Hi'' \<and> renderThrottle m' = 100 * Millisecond"
proof -
  let ?m = "started_model\<lparr>tokenChan := \<lparr>cid = 2, buf = [''Hi''], closed = False\<rparr>\<rparr>"
  have a: "streaming ?m" and b: "buf (tokenChan ?m) = ''Hi'' # []" and c: "renderable ?m"
    by (simp_all add: started_model_eq accepted_model_fields renderable_def)
  from throttle_after_fragment [OF a b c, of example_codec 5050000000 installed_os]
  show ?thesis
    by (auto simp: started_model_eq accepted_model_fields)
qed

text \<open>
  C5 as stated fails at the boundary: when the response reaches exactly 5,000 bytes
  the interval is 100ms, where the stated step function gives 150ms.
\<close>

theorem throttle_at_5000_counterexample:
  "(case Update example_codec tickMsg 5050000000
           (started_model\<lparr>currentResponse := replicate 4999 (CHR ''a''),
                           tokenChan := \<lparr>cid = 2, buf = [''a''], closed = False\<rparr>\<rparr>, installed_os) of
      Inl f \<Rightarrow> False
    | Inr (m', os', c) \<Rightarrow>
        length (currentResponse m') = 5000 \<and> renderThrottle m' = 100 * Millisecond) \<and>
   stated_min_interval 5000 = 150 * Millisecond"
  by (simp add: started_model_eq accepted_model_def Update_def typed_model_def render_defs
      model_defs stated_min_interval_def Let_def)

section \<open>Facts about the condenser\<close>

lemma formatExistingContext_short:
  "messages \<noteq> [] \<Longrightarrow> length messages \<le> 10 \<Longrightarrow>
   formatExistingContext messages =
     ''Previous conversation includes:\<newline>\<newline>'' @ concat (map format_turn messages)"
  by (simp add: formatExistingContext_def)

lemma last_five_before_last:
  assumes "length xs > 10"
  shows "drop (length (butlast xs) - 5) (butlast xs) = take 5 (drop (length xs - 6) xs)"
proof -
  have "butlast xs = take (length xs - 1) xs" by (simp add: butlast_conv_take)
  moreover have "length xs - 1 - 5 = length xs - 6" by simp
  moreover have "length xs - 1 - (length xs - 6) = 5" using assms by simp
  ultimately show ?thesis by (simp add: drop_take)
qed








lemmas condenser_defs = createCondensedHistory_def generateContextSummary_def
  formatExistingContext_def format_turn_def strings_Contains_def strings_ReplaceAll.simps
  sublist_code prefix_code

lemma long_history_turns:
  "filter (\<lambda>msg. Role msg = ''user'' \<or> Role msg = ''assistant'') long_history = tl long_history"
  by (simp add: long_history_def model_defs)

section \<open>The condenser: the fallback when the summary fails\<close>

text \<open>
  C3, as the code has it. When the history has more than ten user and assistant turns
  and the summarization call fails, the context message is the transcript of five
  turns: the last five of the turns before the most recent one. The most recent turn,
  which is the request just sent, is cut off before the summary is tried, and so the
  five turns followed by the most recent one are the last six turns of the history.
\<close>

theorem condensation_fallback_last_five_before_last:
  assumes "userMessages = filter (\<lambda>msg. Role msg = ''user'' \<or> Role msg = ''assistant'') (history m)"
    and "length userMessages > 10"
    and "Invoke llm ([SystemMessage summaryPrompt] @ butlast userMessages) = Inl err"
  shows "createCondensedHistory llm m =
     Inr [SystemMessage (''CONTEXT: '' @ ''Previous conversation includes:\<newline>\<newline>'' @
            concat (map format_turn (take 5 (drop (length userMessages - 6) userMessages))))] \<and>
     length (take 5 (drop (length userMessages - 6) userMessages)) = 5 \<and>
     take 5 (drop (length userMessages - 6) userMessages) @ [last userMessages] =
       drop (length userMessages - 6) userMessages"
proof -
  let ?five = "take 5 (drop (length userMessages - 6) userMessages)"
  have five: "drop (length (butlast userMessages) - 5) (butlast userMessages) = ?five"
    using assms(2) by (rule last_five_before_last)
  have len: "length ?five = 5" using assms(2) by simp
  then have ne: "?five \<noteq> []" by auto
  from len have "formatExistingContext ?five =
      ''Previous conversation includes:\<newline>\<newline>'' @ concat (map format_turn ?five)"
    by (intro formatExistingContext_short ne) simp
  with five assms have "createCondensedHistory llm m =
     Inr [SystemMessage (''CONTEXT: '' @ ''Previous conversation includes:\<newline>\<newline>'' @
            concat (map format_turn ?five))]"
    by (simp add: createCondensedHistory_def generateContextSummary_def Let_def)
  moreover have "?five @ [last userMessages] = drop (length userMessages - 6) userMessages"
  proof -
    let ?ys = "drop (length userMessages - 6) userMessages"
    have l: "length ?ys = 6" using assms(2) by simp
    then have ne2: "?ys \<noteq> []" by auto
    have "butlast ?ys = take 5 ?ys" using l by (simp add: butlast_conv_take)
    moreover have "last ?ys = last userMessages" using assms(2) by (simp add: last_drop)
    ultimately show ?thesis using append_butlast_last_id [OF ne2] by simp
  qed
  ultimately show ?thesis using len by simp
qed

text \<open>With eleven turns q1, a1, ..., a5, q6 the transcript is of a3, q4, a4, q5, a5.\<close>

theorem condensation_fallback_last_five_before_last_witness:
  "createCondensedHistory greeting_llm (typed_model\<lparr>history := long_history\<rparr>) =
     Inr [SystemMessage (''CONTEXT: '' @ ''Previous conversation includes:\<newline>\<newline>'' @
            concat (map format_turn
              [AssistantMessage ''a3'' [], UserMessage ''q4'', AssistantMessage ''a4'' [],
               UserMessage ''q5'', AssistantMessage ''a5'' []]))]"
proof -
  let ?m = "typed_model\<lparr>history := long_history\<rparr>"
  have a: "tl long_history =
      filter (\<lambda>msg. Role msg = ''user'' \<or> Role msg = ''assistant'') (history ?m)"
    by (simp add: long_history_turns)
  have b: "length (tl long_history) > 10" by (simp add: long_history_def)
  have c: "Invoke greeting_llm ([SystemMessage summaryPrompt] @ butlast (tl long_history)) =
      Inl ''context deadline exceeded''"
    by (simp add: greeting_llm_def)
  from condensation_fallback_last_five_before_last [OF a b c] show ?thesis
    by (simp add: long_history_def)
qed

text \<open>
  C3 as stated fails on that history: the last five turns of the history are q4, a4,
  q5, a5 and q6, and the context message is not their transcript.
\<close>

theorem condensation_fallback_counterexample:
  "createCondensedHistory greeting_llm (typed_model\<lparr>history := long_history\<rparr>) =
     Inr [SystemMessage
       (''CONTEXT: Previous conversation includes:\<newline>\<newline>'' @
        ''**Assistant:** a3\<newline>\<newline>**User:** q4\<newline>\<newline>**Assistant:** a4\<newline>\<newline>'' @
        ''**User:** q5\<newline>\<newline>**Assistant:** a5\<newline>\<newline>'')] \<and>
   drop (length long_history - 5) long_history =
     [UserMessage ''q4'', AssistantMessage ''a4'' [], UserMessage ''q5'', AssistantMessage ''a5'' [],
      UserMessage ''q6''] \<and>
   createCondensedHistory greeting_llm (typed_model\<lparr>history := long_history\<rparr>) \<noteq>
     Inr [SystemMessage (''CONTEXT: '' @ formatExistingContext (drop (length long_history - 5) long_history))]"
  by (simp add: condenser_defs long_history_def model_defs greeting_llm_def typed_model_def Let_def)

section \<open>The condenser: the transcript of a short history\<close>




section \<open>Startup with missing or malformed records\<close>

lemma CheckFile_any:
  "CheckFile f os = Inr ex \<Longrightarrow> \<exists>ex'. CheckFile g os = Inr ex'"
  by (auto simp: CheckFile_def GetPath_def split: sum.splits)

lemma ReadFile_exists:
  "ReadFile f os = Inr d \<Longrightarrow> CheckFile f os = Inr True"
  by (auto simp: ReadFile_def split: sum.splits if_splits)

lemma ReadFile_absent:
  "CheckFile f os = Inr False \<Longrightarrow> \<exists>err. ReadFile f os = Inl err"
  by (simp add: ReadFile_def)

lemma NewModel_fields:
  assumes "CheckFile ConversationFile os = Inr ex"
  shows "\<exists>m. NewModel J os = Inr m \<and> \<not> streaming m \<and> maxHistoryDisplay m = 10 \<and>
     history m = (if ex then (case ReadConversation J os of Inl err \<Rightarrow> [] | Inr h \<Rightarrow> h) else []) \<and>
     stats m = (case ReadStats J os of (s, Some err) \<Rightarrow> \<lparr>TotalTokens = 0\<rparr> | (s, None) \<Rightarrow> s)"
  using assms by (simp add: NewModel_def Let_def)

lemma NewModel_bad_conversation:
  assumes "CheckFile ConversationFile os = Inr False \<or>
     (\<exists>d err. ReadFile ConversationFile os = Inr d \<and> Unmarshal_history J d = Inl err)"
  shows "\<exists>m. NewModel J os = Inr m \<and> history m = [] \<and> \<not> streaming m \<and> maxHistoryDisplay m = 10"
proof -
  from assms obtain ex where ex: "CheckFile ConversationFile os = Inr ex"
    by (auto dest: ReadFile_exists)
  from assms have "\<not> ex \<or> (\<exists>err. ReadConversation J os = Inl err)"
    using ex by (auto simp: ReadConversation_def)
  with NewModel_fields [OF ex, of J] show ?thesis by auto
qed

lemma NewModel_bad_stats:
  assumes "CheckFile StatsFile os = Inr False \<or>
     (\<exists>d err. ReadFile StatsFile os = Inr d \<and> Unmarshal_stats J d = Inl err)"
  shows "\<exists>m. NewModel J os = Inr m \<and> TotalTokens (stats m) = 0 \<and> \<not> streaming m"
proof -
  from assms obtain ex0 where "CheckFile StatsFile os = Inr ex0"
    by (auto dest: ReadFile_exists)
  from CheckFile_any [OF this] obtain ex where ex: "CheckFile ConversationFile os = Inr ex"
    by blast
  from assms have "\<exists>s err. ReadStats J os = (s, Some err)"
    by (auto simp: ReadStats_def dest: ReadFile_absent)
  with NewModel_fields [OF ex, of J] show ?thesis by auto
qed

lemma accepts_submission:
  assumes "\<not> streaming m" "history m = []" "maxHistoryDisplay m = 10" "v \<noteq> []"
  shows "\<exists>m'. Update J (KeyMsg KeyEnter) now (m\<lparr>ta_value := v, glam := Some g\<rparr>, os) =
       Inr (m', os, Some (Batch [startStreamingCmd v])) \<and>
     history m' = [UserMessage v] \<and> streaming m'"
proof -
  let ?m = "m\<lparr>ta_value := v, glam := Some g\<rparr>"
  have "renderable (AddToHistory (UserMessage v) ?m)"
    using assms by (simp add: renderable_def AddToHistory_def)
  from updateViewportContent_ok [OF this] obtain m2 where
    uv: "updateViewportContent now (AddToHistory (UserMessage (ta_value ?m)) ?m) = Inr m2"
    by auto
  then obtain m' where u: "Update J (KeyMsg KeyEnter) now (?m, os) =
       Inr (m', os, Some (Batch [startStreamingCmd v]))"
    using assms by (simp add: Update_def Let_def)
  have i: "\<not> streaming ?m" and t: "ta_value ?m \<noteq> []" using assms by simp_all
  from Update_KeyEnter_accepted [OF i t u] assms u show ?thesis by auto
qed

lemma corrupted_records:
  "\<exists>d err. ReadFile ConversationFile corrupted_os = Inr d \<and>
     Unmarshal_history example_codec d = Inl err"
  "\<exists>d err. ReadFile StatsFile corrupted_os = Inr d \<and>
     Unmarshal_stats example_codec d = Inl err"
  "CheckFile ConversationFile installed_os = Inr False"
  "CheckFile StatsFile installed_os = Inr False"
  by (simp_all add: storage_defs os_defs path_defs corrupted_os_def installed_os_def
      example_codec_def example_history_json_def)

text \<open>
  C8. When the conversation record is absent, or is there and is malformed JSON,
  NewModel returns a model (it does not stop the program) whose history is empty and
  which is idle; once the window has its renderer, a text that is typed and sent is
  accepted as usual. When the statistics record is absent or malformed, NewModel
  returns a model whose token count is 0. In each case the home directory is known,
  as it must be for a record to count as absent or malformed.
\<close>

theorem NewModel_defaults_on_bad_records:
  "(CheckFile ConversationFile os = Inr False \<or>
    (\<exists>d err. ReadFile ConversationFile os = Inr d \<and> Unmarshal_history J d = Inl err) \<longrightarrow>
      (\<exists>m. NewModel J os = Inr m \<and> history m = [] \<and> \<not> streaming m \<and>
           (\<forall>v g now. v \<noteq> [] \<longrightarrow>
              (\<exists>m'. Update J (KeyMsg KeyEnter) now (m\<lparr>ta_value := v, glam := Some g\<rparr>, os) =
                      Inr (m', os, Some (Batch [startStreamingCmd v])) \<and>
                    history m' = [UserMessage v] \<and> streaming m')))) \<and>
   (CheckFile StatsFile os = Inr False \<or>
    (\<exists>d err. ReadFile StatsFile os = Inr d \<and> Unmarshal_stats J d = Inl err) \<longrightarrow>
      (\<exists>m. NewModel J os = Inr m \<and> TotalTokens (stats m) = 0 \<and> \<not> streaming m))"
proof (intro conjI impI)
  assume "CheckFile ConversationFile os = Inr False \<or>
    (\<exists>d err. ReadFile ConversationFile os = Inr d \<and> Unmarshal_history J d = Inl err)"
  from NewModel_bad_conversation [OF this] obtain m where
    m: "NewModel J os = Inr m" "history m = []" "\<not> streaming m" "maxHistoryDisplay m = 10"
    by blast
  with accepts_submission [OF m(3) m(2) m(4)] show
    "\<exists>m. NewModel J os = Inr m \<and> history m = [] \<and> \<not> streaming m \<and>
           (\<forall>v g now. v \<noteq> [] \<longrightarrow>
              (\<exists>m'. Update J (KeyMsg KeyEnter) now (m\<lparr>ta_value := v, glam := Some g\<rparr>, os) =
                      Inr (m', os, Some (Batch [startStreamingCmd v])) \<and>
                    history m' = [UserMessage v] \<and> streaming m'))"
    by blast
next
  assume "CheckFile StatsFile os = Inr False \<or>
    (\<exists>d err. ReadFile StatsFile os = Inr d \<and> Unmarshal_stats J d = Inl err)"
  then show "\<exists>m. NewModel J os = Inr m \<and> TotalTokens (stats m) = 0 \<and> \<not> streaming m"
    by (rule NewModel_bad_stats)
qed

text \<open>
  Startup on the installation with the two damaged records, and on the installation
  without records.
\<close>

theorem NewModel_defaults_on_bad_records_witness:
  "(\<exists>m. NewModel example_codec corrupted_os = Inr m \<and> history m = [] \<and>
        (\<exists>m'. Update example_codec (KeyMsg KeyEnter) 5000000000
                 (m\<lparr>ta_value := ''Hello'', glam := Some (\<lambda>logs. Inr logs)\<rparr>, corrupted_os) =
                 Inr (m', corrupted_os, Some (Batch [startStreamingCmd ''Hello''])) \<and>
               history m' = [UserMessage ''Hello''] \<and> streaming m')) \<and>
   (\<exists>m. NewModel example_codec corrupted_os = Inr m \<and> TotalTokens (stats m) = 0) \<and>
   (\<exists>m. NewModel example_codec installed_os = Inr m \<and> history m = []) \<and>
   (\<exists>m. NewModel example_codec installed_os = Inr m \<and> TotalTokens (stats m) = 0)"
proof -
  have ne: "''Hello'' \<noteq> []" by simp
  from NewModel_defaults_on_bad_records [of corrupted_os example_codec] corrupted_records(1,2)
  have a: "\<exists>m. NewModel example_codec corrupted_os = Inr m \<and> history m = [] \<and> \<not> streaming m \<and>
           (\<forall>v g now. v \<noteq> [] \<longrightarrow>
              (\<exists>m'. Update example_codec (KeyMsg KeyEnter) now (m\<lparr>ta_value := v, glam := Some g\<rparr>, corrupted_os) =
                      Inr (m', corrupted_os, Some (Batch [startStreamingCmd v])) \<and>
                    history m' = [UserMessage v] \<and> streaming m'))"
    and b: "\<exists>m. NewModel example_codec corrupted_os = Inr m \<and> TotalTokens (stats m) = 0 \<and> \<not> streaming m"
    by blast+
  from NewModel_defaults_on_bad_records [of installed_os example_codec] corrupted_records(3,4)
  have c: "\<exists>m. NewModel example_codec installed_os = Inr m \<and> history m = [] \<and> \<not> streaming m \<and>
           (\<forall>v g now. v \<noteq> [] \<longrightarrow>
              (\<exists>m'. Update example_codec (KeyMsg KeyEnter) now (m\<lparr>ta_value := v, glam := Some g\<rparr>, installed_os) =
                      Inr (m', installed_os, Some (Batch [startStreamingCmd v])) \<and>
                    history m' = [UserMessage v] \<and> streaming m'))"
    and d: "\<exists>m. NewModel example_codec installed_os = Inr m \<and> TotalTokens (stats m) = 0 \<and> \<not> streaming m"
    by blast+
  from a ne have a': "\<exists>m. NewModel example_codec corrupted_os = Inr m \<and> history m = [] \<and>
        (\<exists>m'. Update example_codec (KeyMsg KeyEnter) 5000000000
                 (m\<lparr>ta_value := ''Hello'', glam := Some (\<lambda>logs. Inr logs)\<rparr>, corrupted_os) =
                 Inr (m', corrupted_os, Some (Batch [startStreamingCmd ''Hello''])) \<and>
               history m' = [UserMessage ''Hello''] \<and> streaming m')"
    by blast
  from a' b c d show ?thesis by blast
qed

end
